theory Spec2Isabelle
  imports Complex_Main "HOL-Library.Multiset"
begin

section \<open>JavaScript values used by the planner\<close>

text \<open>
  The planner of TaskFlow (\<^verbatim>\<open>PlannerController\<close>, \<^verbatim>\<open>TaskManager\<close> and the task form of
  \<^verbatim>\<open>UIController\<close>) computes with minutes since midnight. Its numbers are doubles. The
  embedding computes with the integers among them: a number is an \<^typ>\<open>int option\<close>, \<open>None\<close>
  is \<^verbatim>\<open>NaN\<close>, \<open>Some n\<close> is the integer \<open>n\<close>. Every comparison with \<^verbatim>\<open>NaN\<close> is false and every
  sum, difference or product with \<^verbatim>\<open>NaN\<close> is \<^verbatim>\<open>NaN\<close>, as in the language.

  Doubles hold every integer up to \<open>2^53\<close> in magnitude, and their sums, differences and
  products are exact while they stay in that range. The numbers of the planner come from
  four places: a string converted with \<^verbatim>\<open>Number\<close> or \<^verbatim>\<open>parseInt\<close>, a stored duration, a pixel
  position, and the constants of the code. Each of the first three is guarded below: a
  conversion that does not give \<^verbatim>\<open>NaN\<close> or an integer of magnitude at most \<open>2^40\<close>, a duration
  beyond \<open>2^30\<close>, and a pixel position off the grid described at \<open>onGrid\<close> stop the handler
  with the outcome \<open>Inexact\<close>. So the arithmetic below only ever meets integers far inside
  the exact range, and wherever a handler of the embedding returns a result, the code
  returns that result.
\<close>

type_synonym jsnum = "int option"

fun num_add :: "jsnum \<Rightarrow> jsnum \<Rightarrow> jsnum" where
  "num_add (Some x) (Some y) = Some (x + y)"
| "num_add _ _ = None"

fun num_sub :: "jsnum \<Rightarrow> jsnum \<Rightarrow> jsnum" where
  "num_sub (Some x) (Some y) = Some (x - y)"
| "num_sub _ _ = None"

fun num_mul :: "jsnum \<Rightarrow> jsnum \<Rightarrow> jsnum" where
  "num_mul (Some x) (Some y) = Some (x * y)"
| "num_mul _ _ = None"

fun num_lt :: "jsnum \<Rightarrow> jsnum \<Rightarrow> bool" where
  "num_lt (Some x) (Some y) = (x < y)"
| "num_lt _ _ = False"

fun num_le :: "jsnum \<Rightarrow> jsnum \<Rightarrow> bool" where
  "num_le (Some x) (Some y) = (x \<le> y)"
| "num_le _ _ = False"

definition num_gt :: "jsnum \<Rightarrow> jsnum \<Rightarrow> bool" where
  "num_gt a b = num_lt b a"

definition num_ge :: "jsnum \<Rightarrow> jsnum \<Rightarrow> bool" where
  "num_ge a b = num_le b a"

text \<open>How a handler ends when it does not return: \<open>TypeError\<close> is the exception the code
  throws when it calls \<^verbatim>\<open>.split\<close> or \<^verbatim>\<open>.replace\<close> on a value that is not a string; \<open>Inexact\<close>
  marks a number outside the integers the embedding computes with (the code goes on with
  a double there); \<open>Unspecified\<close> marks a sort whose comparator is not consistent, for which
  the language leaves the resulting order to the implementation.\<close>

datatype stop = TypeError | Inexact | Unspecified

definition bindE :: "stop + 'a \<Rightarrow> ('a \<Rightarrow> stop + 'b) \<Rightarrow> stop + 'b" where
  "bindE m f = (case m of Inl e \<Rightarrow> Inl e | Inr x \<Rightarrow> f x)"

definition exactInt :: "int \<Rightarrow> bool" where
  "exactInt n = (\<bar>n\<bar> \<le> 2 ^ 40)"

definition exactly :: "int \<Rightarrow> stop + jsnum" where
  "exactly n = (if exactInt n then Inr (Some n) else Inl Inexact)"

text \<open>A field that holds a string when it is set: \<open>Absent\<close> is \<^verbatim>\<open>null\<close>, \<^verbatim>\<open>undefined\<close> or any
  other falsy value that is not a string, \<open>Text s\<close> the string \<open>s\<close>, and \<open>Other\<close> a truthy value
  that is not a string (a number, \<^verbatim>\<open>true\<close>, an array or an object, as an imported file can
  carry). Truthiness: \<^verbatim>\<open>""\<close> is falsy.\<close>

datatype field = Absent | Text string | Other

definition truthy :: "field \<Rightarrow> bool" where
  "truthy v = (case v of Absent \<Rightarrow> False | Text s \<Rightarrow> s \<noteq> [] | Other \<Rightarrow> True)"

text \<open>\<^verbatim>\<open>v || d\<close> on a number-or-missing field: a missing value and \<^verbatim>\<open>0\<close> are falsy.\<close>

definition or_default :: "int option \<Rightarrow> int \<Rightarrow> int" where
  "or_default v d = (case v of None \<Rightarrow> d | Some n \<Rightarrow> if n = 0 then d else n)"

subsection \<open>Strings\<close>

text \<open>A string is the list of the bytes of its UTF-8 encoding; the planner looks at ASCII
  characters only (digits, signs, the colon) and at white space. \<open>whiteSpaces\<close> lists the
  encodings of the white space and line terminator code points of the language: U+0009 to
  U+000D, U+0020, U+00A0, U+1680, U+2000 to U+200A, U+2028, U+2029, U+202F, U+205F, U+3000
  and U+FEFF.\<close>

definition whiteSpaces :: "string list" where
  "whiteSpaces =
     [[CHR 0x09], [CHR 0x0A], [CHR 0x0B], [CHR 0x0C], [CHR 0x0D], [CHR 0x20],
      [CHR 0xC2, CHR 0xA0],
      [CHR 0xE1, CHR 0x9A, CHR 0x80],
      [CHR 0xE2, CHR 0x80, CHR 0x80], [CHR 0xE2, CHR 0x80, CHR 0x81],
      [CHR 0xE2, CHR 0x80, CHR 0x82], [CHR 0xE2, CHR 0x80, CHR 0x83],
      [CHR 0xE2, CHR 0x80, CHR 0x84], [CHR 0xE2, CHR 0x80, CHR 0x85],
      [CHR 0xE2, CHR 0x80, CHR 0x86], [CHR 0xE2, CHR 0x80, CHR 0x87],
      [CHR 0xE2, CHR 0x80, CHR 0x88], [CHR 0xE2, CHR 0x80, CHR 0x89],
      [CHR 0xE2, CHR 0x80, CHR 0x8A],
      [CHR 0xE2, CHR 0x80, CHR 0xA8], [CHR 0xE2, CHR 0x80, CHR 0xA9],
      [CHR 0xE2, CHR 0x80, CHR 0xAF],
      [CHR 0xE2, CHR 0x81, CHR 0x9F],
      [CHR 0xE3, CHR 0x80, CHR 0x80],
      [CHR 0xEF, CHR 0xBB, CHR 0xBF]]"

text \<open>The number of bytes of the white space character at the front of \<open>s\<close>, \<open>0\<close> when \<open>s\<close>
  does not start with one.\<close>

definition wsLen :: "string \<Rightarrow> nat" where
  "wsLen s = (case find (\<lambda>w. take (length w) s = w) whiteSpaces of
                None \<Rightarrow> 0
              | Some w \<Rightarrow> length w)"

text \<open>\<^verbatim>\<open>s.trimStart()\<close>, \<^verbatim>\<open>s.trimEnd()\<close> and \<^verbatim>\<open>s.trim()\<close>.\<close>

function trimStart :: "string \<Rightarrow> string" where
  "trimStart s = (if wsLen s = 0 then s else trimStart (drop (wsLen s) s))"
  by pat_completeness auto
termination
proof (relation "measure length")
  show "wf (measure length)"
    by simp
next
  fix s :: string
  assume n: "wsLen s \<noteq> 0"
  have "wsLen [] = 0"
    by (simp add: wsLen_def whiteSpaces_def)
  with n have "s \<noteq> []"
    by auto
  with n show "(drop (wsLen s) s, s) \<in> measure length"
    by simp
qed

declare trimStart.simps [simp del]

fun trimEnd :: "string \<Rightarrow> string" where
  "trimEnd [] = []"
| "trimEnd (c # cs) = (if trimStart (c # cs) = [] then [] else c # trimEnd cs)"

definition trim :: "string \<Rightarrow> string" where
  "trim s = trimEnd (trimStart s)"

definition isDigit :: "char \<Rightarrow> bool" where
  "isDigit c = (48 \<le> (of_char c :: nat) \<and> (of_char c :: nat) \<le> 57)"

definition digitVal :: "char \<Rightarrow> int" where
  "digitVal c = int (of_char c) - 48"

definition digitsVal :: "string \<Rightarrow> int" where
  "digitsVal s = foldl (\<lambda>a c. 10 * a + digitVal c) 0 s"

definition isHexDigit :: "char \<Rightarrow> bool" where
  "isHexDigit c = (isDigit c \<or> c \<in> set ''abcdefABCDEF'')"

definition isOctDigit :: "char \<Rightarrow> bool" where
  "isOctDigit c = (48 \<le> (of_char c :: nat) \<and> (of_char c :: nat) \<le> 55)"

definition isBinDigit :: "char \<Rightarrow> bool" where
  "isBinDigit c = (c = CHR ''0'' \<or> c = CHR ''1'')"

definition hexDigitVal :: "char \<Rightarrow> int" where
  "hexDigitVal c = (if isDigit c then digitVal c
                    else if c \<in> set ''abcdef'' then int (of_char c) - 87
                    else int (of_char c) - 55)"

definition radixVal :: "int \<Rightarrow> string \<Rightarrow> int" where
  "radixVal r s = foldl (\<lambda>a c. r * a + hexDigitVal c) 0 s"

text \<open>The string numeric literals of \<^verbatim>\<open>Number(s)\<close>. A literal with a radix prefix
  (\<^verbatim>\<open>0x\<close>, \<^verbatim>\<open>0o\<close>, \<^verbatim>\<open>0b\<close>, in either case) takes no sign and is the integer its digits
  spell.\<close>

definition radixLiteral :: "string \<Rightarrow> int option" where
  "radixLiteral t =
     (let p = take 2 t; ds = drop 2 t
      in if (p = ''0x'' \<or> p = ''0X'') \<and> ds \<noteq> [] \<and> list_all isHexDigit ds
           then Some (radixVal 16 ds)
         else if (p = ''0o'' \<or> p = ''0O'') \<and> ds \<noteq> [] \<and> list_all isOctDigit ds
           then Some (radixVal 8 ds)
         else if (p = ''0b'' \<or> p = ''0B'') \<and> ds \<noteq> [] \<and> list_all isBinDigit ds
           then Some (radixVal 2 ds)
         else None)"

text \<open>An unsigned decimal literal is \<^verbatim>\<open>Infinity\<close>, or digits with an optional fraction
  (\<^verbatim>\<open>12\<close>, \<^verbatim>\<open>12.\<close>, \<^verbatim>\<open>12.5\<close>, \<^verbatim>\<open>.5\<close>) and an optional exponent (\<^verbatim>\<open>e\<close> or \<^verbatim>\<open>E\<close>, an optional sign, digits).
  \<open>Decimal ds e\<close> stands for the value of the digits \<open>ds\<close> times \<open>10^e\<close>.\<close>

datatype decimal = NotDecimal | Infinite | Decimal string int

definition unsignedDecimal :: "string \<Rightarrow> decimal" where
  "unsignedDecimal r =
     (if r = ''Infinity'' then Infinite
      else
        (let ip = takeWhile isDigit r;
             r1 = dropWhile isDigit r;
             hasDot = (take 1 r1 = ''.'');
             fp = (if hasDot then takeWhile isDigit (drop 1 r1) else []);
             r2 = (if hasDot then dropWhile isDigit (drop 1 r1) else r1);
             hasExp = (take 1 r2 = ''e'' \<or> take 1 r2 = ''E'');
             r3 = drop 1 r2;
             eneg = (take 1 r3 = ''-'');
             r4 = (if take 1 r3 = ''-'' \<or> take 1 r3 = ''+'' then drop 1 r3 else r3)
         in if ip = [] \<and> fp = [] then NotDecimal
            else if r2 = [] then Decimal (ip @ fp) (- int (length fp))
            else if hasExp \<and> r4 \<noteq> [] \<and> list_all isDigit r4
              then Decimal (ip @ fp)
                     ((if eneg then - digitsVal r4 else digitsVal r4) - int (length fp))
            else NotDecimal))"

text \<open>The value of the digits \<open>ds\<close> times \<open>10^e\<close> when that is an integer of magnitude at
  most \<open>2^40\<close>. A digit string that is not zero is at least \<open>1\<close> and less than
  \<open>10^(length ds)\<close>, so the value is too large for \<open>e > 13\<close> and not an integer when
  \<open>- e\<close> exceeds the number of digits.\<close>

definition decimalValue :: "string \<Rightarrow> int \<Rightarrow> stop + jsnum" where
  "decimalValue ds e =
     (let mant = digitsVal ds
      in if mant = 0 then Inr (Some 0)
         else if 0 \<le> e then (if e \<le> 13 then exactly (mant * 10 ^ nat e) else Inl Inexact)
         else if nat (- e) \<le> length ds \<and> mant mod 10 ^ nat (- e) = 0
           then exactly (mant div 10 ^ nat (- e))
         else Inl Inexact)"

text \<open>\<^verbatim>\<open>Number(s)\<close> on a string: surrounding white space is dropped; the empty string is
  \<^verbatim>\<open>0\<close>; a numeric literal is its value; anything else is \<^verbatim>\<open>NaN\<close>. Where the value is not an
  integer of magnitude at most \<open>2^40\<close> (a fraction, \<^verbatim>\<open>Infinity\<close>, a large number) the result is
  \<open>Inexact\<close>.\<close>

definition Number :: "string \<Rightarrow> stop + jsnum" where
  "Number s =
     (let t = trim s
      in if t = [] then Inr (Some 0)
         else
           (case radixLiteral t of
              Some v \<Rightarrow> exactly v
            | None \<Rightarrow>
                (let neg = (take 1 t = ''-'');
                     u = (if take 1 t = ''-'' \<or> take 1 t = ''+'' then drop 1 t else t)
                 in (case unsignedDecimal u of
                       NotDecimal \<Rightarrow> Inr None
                     | Infinite \<Rightarrow> Inl Inexact
                     | Decimal ds e \<Rightarrow>
                         bindE (decimalValue ds e)
                           (\<lambda>v. Inr (if neg then map_option uminus v else v))))))"

text \<open>\<^verbatim>\<open>s.split(':')\<close>: the segments between colons; never the empty array.\<close>

fun split_colon :: "string \<Rightarrow> string list" where
  "split_colon [] = [[]]"
| "split_colon (c # cs) =
     (if c = CHR '':'' then [] # split_colon cs
      else (case split_colon cs of
              seg # rest \<Rightarrow> (c # seg) # rest
            | [] \<Rightarrow> [[c]]))"

text \<open>\<^verbatim>\<open>const [h, m] = s.split(':').map(Number)\<close>: a missing second element is
  \<^verbatim>\<open>undefined\<close>, which the arithmetic below turns into \<^verbatim>\<open>NaN\<close>. Segments after the second
  are converted and never read.\<close>

definition hoursMinutes :: "string \<Rightarrow> stop + (jsnum \<times> jsnum)" where
  "hoursMinutes s =
     (case split_colon s of
        [] \<Rightarrow> Inr (None, None)
      | [h] \<Rightarrow> bindE (Number h) (\<lambda>a. Inr (a, None))
      | h # m # _ \<Rightarrow> bindE (Number h) (\<lambda>a. bindE (Number m) (\<lambda>b. Inr (a, b))))"

text \<open>\<^verbatim>\<open>h * 60 + m\<close>.\<close>

definition toMinutes :: "jsnum \<times> jsnum \<Rightarrow> jsnum" where
  "toMinutes hm = num_add (num_mul (fst hm) (Some 60)) (snd hm)"

definition startMinutesOf :: "string \<Rightarrow> stop + jsnum" where
  "startMinutesOf s = bindE (hoursMinutes s) (\<lambda>hm. Inr (toMinutes hm))"

text \<open>\<^verbatim>\<open>n.toString()\<close> of an integer and \<^verbatim>\<open>.padStart(2, '0')\<close>.\<close>

function digitsOf :: "nat \<Rightarrow> string" where
  "digitsOf n = (if n < 10 then [char_of (48 + n)]
                 else digitsOf (n div 10) @ [char_of (48 + n mod 10)])"
  by pat_completeness auto
termination
  by (relation "measure id") auto

declare digitsOf.simps [simp del]

definition toString :: "int \<Rightarrow> string" where
  "toString i = (if i < 0 then CHR ''-'' # digitsOf (nat (- i)) else digitsOf (nat i))"

definition padStart2 :: "string \<Rightarrow> string" where
  "padStart2 s = replicate (2 - length s) (CHR ''0'') @ s"

text \<open>The remainder \<^verbatim>\<open>a % b\<close> takes the sign of the dividend.\<close>

definition js_rem :: "int \<Rightarrow> int \<Rightarrow> int" where
  "js_rem a b = sgn a * (\<bar>a\<bar> mod \<bar>b\<bar>)"

text \<open>\<^verbatim>\<open>`${h.toString().padStart(2,'0')}:${m.toString().padStart(2,'0')}`\<close> with
  \<^verbatim>\<open>h = Math.floor(t / 60)\<close> and \<^verbatim>\<open>m = t % 60\<close>.\<close>

definition timeString :: "int \<Rightarrow> string" where
  "timeString t = padStart2 (toString (t div 60)) @ '':'' @ padStart2 (toString (js_rem t 60))"

text \<open>The overlap test every scheduling path writes inline:
  \<^verbatim>\<open>myStart < sEnd && myEnd > sStart\<close>.\<close>

definition overlaps :: "jsnum \<Rightarrow> jsnum \<Rightarrow> jsnum \<Rightarrow> jsnum \<Rightarrow> bool" where
  "overlaps aStart aEnd bStart bEnd = (num_lt aStart bEnd \<and> num_gt aEnd bStart)"

text \<open>\<^verbatim>\<open>Math.round\<close> rounds to the nearest integer, a half upwards.\<close>

definition math_round :: "rat \<Rightarrow> int" where
  "math_round x = \<lfloor>x + 1 / 2\<rfloor>"

text \<open>\<^verbatim>\<open>s.replace(':', '')\<close> removes the first colon; \<^verbatim>\<open>parseInt(s)\<close> skips leading white
  space, reads an optional sign and an optional \<^verbatim>\<open>0x\<close> prefix, then the longest run of
  digits, and is \<^verbatim>\<open>NaN\<close> when that run is empty.\<close>

definition replace_colon :: "string \<Rightarrow> string" where
  "replace_colon s =
     takeWhile (\<lambda>c. c \<noteq> CHR '':'') s @ drop 1 (dropWhile (\<lambda>c. c \<noteq> CHR '':'') s)"

definition parseInt :: "string \<Rightarrow> stop + jsnum" where
  "parseInt s =
     (let t = trimStart s;
          neg = (take 1 t = ''-'');
          u = (if take 1 t = ''-'' \<or> take 1 t = ''+'' then drop 1 t else t);
          hex = (take 2 u = ''0x'' \<or> take 2 u = ''0X'');
          ds = (if hex then takeWhile isHexDigit (drop 2 u) else takeWhile isDigit u);
          v = (if hex then radixVal 16 ds else digitsVal ds)
      in if ds = [] then Inr None else exactly (if neg then - v else v))"

text \<open>\<^verbatim>\<open>Array.prototype.sort(cmp)\<close> with a consistent comparator: a stable sort; a comparator
  result that is \<^verbatim>\<open>NaN\<close> counts as \<^verbatim>\<open>0\<close>. The element \<open>x\<close> goes behind \<open>y\<close> only when
  \<^verbatim>\<open>cmp(x, y) > 0\<close>.\<close>

fun insort_cmp :: "('a \<Rightarrow> 'a \<Rightarrow> jsnum) \<Rightarrow> 'a \<Rightarrow> 'a list \<Rightarrow> 'a list" where
  "insort_cmp cmp x [] = [x]"
| "insort_cmp cmp x (y # ys) =
     (if num_gt (cmp x y) (Some 0) then y # insort_cmp cmp x ys else x # y # ys)"

definition sort_cmp :: "('a \<Rightarrow> 'a \<Rightarrow> jsnum) \<Rightarrow> 'a list \<Rightarrow> 'a list" where
  "sort_cmp cmp xs = foldr (insort_cmp cmp) xs []"

text \<open>\<^verbatim>\<open>xs.findIndex(P)\<close>, with \<open>None\<close> for \<^verbatim>\<open>-1\<close>.\<close>

fun findIndex :: "('a \<Rightarrow> bool) \<Rightarrow> 'a list \<Rightarrow> nat option" where
  "findIndex P [] = None"
| "findIndex P (x # xs) = (if P x then Some 0 else map_option Suc (findIndex P xs))"

section \<open>Tasks and the task store\<close>

text \<open>A stored task. Its time fields (\<open>dueDate\<close>, \<open>preferredTime\<close>, \<open>plannedStartTime\<close>) are
  strings when set, its duration an integer number of minutes or missing. The priority
  is looked at only as a key of the table \<^verbatim>\<open>priorityOrder = {'high': 3, 'medium': 2, 'low': 1}\<close>:
  \<open>High\<close>, \<open>Medium\<close> and \<open>Low\<close> are its three keys; \<open>Inherited k\<close> is a value whose key \<open>k\<close> names
  a member that every object literal inherits (\<^verbatim>\<open>constructor\<close>, \<^verbatim>\<open>toString\<close>, \<^verbatim>\<open>valueOf\<close>,
  \<^verbatim>\<open>hasOwnProperty\<close>, \<^verbatim>\<open>__proto__\<close>, \<dots>); \<open>Unranked\<close> is any other value, for which the lookup
  is \<^verbatim>\<open>undefined\<close>.\<close>

datatype priority = High | Medium | Low | Inherited string | Unranked

record task =
  taskId :: string
  title :: string
  description :: string
  priority :: priority
  categoryId :: field
  dueDate :: field
  preferredTime :: field
  plannedStartTime :: field
  plannedDuration :: "int option"
  color :: string
  subtasks :: "(string \<times> bool) list"
  completed :: bool
  createdAt :: string
  order :: int

text \<open>The stored task list of the logged-in user is a \<^typ>\<open>task list\<close>; a write to local
  storage is taken to succeed. \<^verbatim>\<open>TaskManager.updateTask(taskId, updates)\<close> overwrites the
  fields named in \<^verbatim>\<open>updates\<close> on the first task with that id; the updates are given as
  the function that writes them.\<close>

definition updateTask :: "string \<Rightarrow> (task \<Rightarrow> task) \<Rightarrow> task list \<Rightarrow> task list" where
  "updateTask tid updates tasks =
     (case findIndex (\<lambda>t. taskId t = tid) tasks of
        None \<Rightarrow> tasks
      | Some index \<Rightarrow> tasks[index := updates (tasks ! index)])"

record taskData =
  td_title :: string
  td_description :: string
  td_priority :: priority
  td_categoryId :: field
  td_dueDate :: field
  td_preferredTime :: field
  td_plannedDuration :: "int option"
  td_color :: string
  td_subtasks :: "(string \<times> bool) list"

text \<open>\<^verbatim>\<open>TaskManager.createTask(taskData)\<close>; the fresh id and the creation time are inputs.\<close>

definition createTask :: "string \<Rightarrow> string \<Rightarrow> taskData \<Rightarrow> task list \<Rightarrow> task list" where
  "createTask newId now d tasks =
     \<lparr> taskId = newId,
       title = trim (td_title d),
       description = trim (td_description d),
       priority = td_priority d,
       categoryId = (if truthy (td_categoryId d) then td_categoryId d else Absent),
       dueDate = (if truthy (td_dueDate d) then td_dueDate d else Absent),
       preferredTime = (if truthy (td_preferredTime d) then td_preferredTime d else Absent),
       plannedStartTime = Absent,
       plannedDuration = Some (or_default (td_plannedDuration d) 30),
       color = (if td_color d \<noteq> [] then td_color d else ''#6366f1''),
       subtasks = td_subtasks d,
       completed = False,
       createdAt = now,
       order = 0 \<rparr>
     # map (\<lambda>t. t\<lparr>order := order t + 1\<rparr>) tasks"

definition applyTaskData :: "taskData \<Rightarrow> task \<Rightarrow> task" where
  "applyTaskData d t =
     t\<lparr> title := td_title d,
        description := td_description d,
        priority := td_priority d,
        categoryId := td_categoryId d,
        dueDate := td_dueDate d,
        preferredTime := td_preferredTime d,
        plannedDuration := td_plannedDuration d,
        color := td_color d,
        subtasks := td_subtasks d \<rparr>"

section \<open>The planner\<close>

text \<open>The fields of \<^verbatim>\<open>PlannerController\<close> that never change.\<close>

definition timeSlotHeight :: int where "timeSlotHeight = 60"
definition startHour :: int where "startHour = 0"
definition endHour :: int where "endHour = 24"

text \<open>What the user is told; a handler that returns silently shows no toast.\<close>

datatype toast =
    NoUnscheduledTasks
  | AutoScheduled nat
  | NoEmptySlots
  | OutsideWorkingHours
  | SlotOccupied
  | Scheduled
  | ScheduledFor int int
  | DurationUpdated int
  | TitleRequired
  | TaskUpdated
  | TaskCreated

text \<open>\<^verbatim>\<open>task.plannedDuration || 30\<close>, and the guard on it: the duration takes part in sums
  with minutes of the day.\<close>

definition durationOf :: "task \<Rightarrow> int" where
  "durationOf t = or_default (plannedDuration t) 30"

definition exactDuration :: "task \<Rightarrow> bool" where
  "exactDuration t = (\<bar>durationOf t\<bar> \<le> 2 ^ 30)"

definition plannedMinutes :: "task \<Rightarrow> stop + int" where
  "plannedMinutes t = (if exactDuration t then Inr (durationOf t) else Inl Inexact)"

text \<open>The interval of a scheduled task \<open>s\<close>, as each \<^verbatim>\<open>some\<close> callback computes it:
  \<^verbatim>\<open>sStart = sH * 60 + sM\<close>, \<^verbatim>\<open>sEnd = sStart + (s.plannedDuration || 30)\<close>. Reading \<^verbatim>\<open>.split\<close>
  of a start time that is not a string throws.\<close>

definition intervalOf :: "task \<Rightarrow> stop + (jsnum \<times> jsnum)" where
  "intervalOf s =
     (case plannedStartTime s of
        Absent \<Rightarrow> Inl TypeError
      | Other \<Rightarrow> Inl TypeError
      | Text str \<Rightarrow>
          bindE (startMinutesOf str) (\<lambda>sStart.
          bindE (plannedMinutes s) (\<lambda>d.
            Inr (sStart, num_add sStart (Some d)))))"

text \<open>\<^verbatim>\<open>scheduled.some(s => myStart < sEnd && myEnd > sStart)\<close>, stopping at the first hit.\<close>

fun someOverlap :: "jsnum \<Rightarrow> jsnum \<Rightarrow> task list \<Rightarrow> stop + bool" where
  "someOverlap myStart myEnd [] = Inr False"
| "someOverlap myStart myEnd (s # ss) =
     (case intervalOf s of
        Inl e \<Rightarrow> Inl e
      | Inr iv \<Rightarrow>
          if overlaps myStart myEnd (fst iv) (snd iv) then Inr True
          else someOverlap myStart myEnd ss)"

text \<open>The comparator that keeps \<^verbatim>\<open>scheduled\<close> ordered by start:
  \<^verbatim>\<open>parseInt(a.plannedStartTime.replace(':', '')) - parseInt(b.plannedStartTime.replace(':', ''))\<close>.
  A sort of two or more elements calls it on every element, so it throws when one of them
  has a start time that is not a string. Where keys are \<^verbatim>\<open>NaN\<close> the comparator is not
  consistent and the language leaves the order to the implementation; the planner reads
  \<^verbatim>\<open>scheduled\<close> only through \<^verbatim>\<open>some\<close>, and what \<open>someOverlap\<close> returns on a list it returns on
  every rearrangement of the list on which it returns (\<open>someOverlap_order\<close> below), so the
  order is not marked as unspecified here.\<close>

definition startKey :: "task \<Rightarrow> stop + jsnum" where
  "startKey t =
     (case plannedStartTime t of
        Absent \<Rightarrow> Inl TypeError
      | Other \<Rightarrow> Inl TypeError
      | Text s \<Rightarrow> parseInt (replace_colon s))"

definition keyOf :: "task \<Rightarrow> jsnum" where
  "keyOf t = (case startKey t of Inl e \<Rightarrow> None | Inr k \<Rightarrow> k)"

definition byStart :: "task \<Rightarrow> task \<Rightarrow> jsnum" where
  "byStart a b = num_sub (keyOf a) (keyOf b)"

definition sortByStart :: "task list \<Rightarrow> stop + task list" where
  "sortByStart xs =
     (if length xs < 2 then Inr xs
      else (case find (\<lambda>t. isl (startKey t)) xs of
              Some t \<Rightarrow> Inl (projl (startKey t))
            | None \<Rightarrow> Inr (sort_cmp byStart xs)))"

subsection \<open>Auto-schedule\<close>

definition workStartMins :: int where "workStartMins = 8 * 60"
definition workEndMins :: int where "workEndMins = 20 * 60"

text \<open>\<^verbatim>\<open>priorityOrder[p]\<close>: the rank of one of the three keys, an inherited member (a function
  or an object, truthy and not a number), or \<^verbatim>\<open>undefined\<close>. \<^verbatim>\<open>|| 0\<close> replaces \<^verbatim>\<open>undefined\<close>.\<close>

datatype entry = Rank int | Member string

definition priorityOrder :: "priority \<Rightarrow> entry option" where
  "priorityOrder p =
     (case p of
        High \<Rightarrow> Some (Rank 3)
      | Medium \<Rightarrow> Some (Rank 2)
      | Low \<Rightarrow> Some (Rank 1)
      | Inherited k \<Rightarrow> Some (Member k)
      | Unranked \<Rightarrow> None)"

definition orZero :: "entry option \<Rightarrow> entry" where
  "orZero v = (case v of None \<Rightarrow> Rank 0 | Some e \<Rightarrow> e)"

text \<open>The comparator of the tasks without preferred time. Two inherited members are the
  same value exactly when they have the same key; a difference with a member is \<^verbatim>\<open>NaN\<close>.\<close>

definition sortFn :: "task \<Rightarrow> task \<Rightarrow> jsnum" where
  "sortFn a b =
     (let pA = orZero (priorityOrder (priority a));
          pB = orZero (priorityOrder (priority b))
      in if pA \<noteq> pB then
           (case pB of
              Member k \<Rightarrow> None
            | Rank y \<Rightarrow> (case pA of Member k \<Rightarrow> None | Rank x \<Rightarrow> Some (y - x)))
         else Some (durationOf b - durationOf a))"

definition unscheduledOf :: "task list \<Rightarrow> task list" where
  "unscheduledOf tasks = filter (\<lambda>t. \<not> truthy (plannedStartTime t) \<and> \<not> completed t) tasks"

definition activeScheduledOf :: "task list \<Rightarrow> task list" where
  "activeScheduledOf tasks = filter (\<lambda>t. truthy (plannedStartTime t) \<and> \<not> completed t) tasks"

definition ranked :: "task \<Rightarrow> bool" where
  "ranked t = (case priority t of Inherited k \<Rightarrow> False | _ \<Rightarrow> True)"

text \<open>\<^verbatim>\<open>sortedUnscheduled\<close>. With two or more tasks to sort, a priority that names an inherited
  member makes the comparator return \<^verbatim>\<open>NaN\<close> against the other ranks, so that it is not
  consistent: the order is \<open>Unspecified\<close>. The differences of durations are guarded like
  every other number.\<close>

definition sortedUnscheduled :: "task list \<Rightarrow> stop + task list" where
  "sortedUnscheduled tasks =
     (let unscheduled = unscheduledOf tasks;
          withPreference = filter (\<lambda>t. truthy (preferredTime t)) unscheduled;
          withoutPreference = filter (\<lambda>t. \<not> truthy (preferredTime t)) unscheduled
      in if 2 \<le> length withoutPreference \<and> \<not> list_all ranked withoutPreference
           then Inl Unspecified
         else if 2 \<le> length withoutPreference \<and> \<not> list_all exactDuration withoutPreference
           then Inl Inexact
         else Inr (withPreference @ sort_cmp sortFn withoutPreference))"

text \<open>Strategy A, the preferred time: the value of \<^verbatim>\<open>scheduledTime\<close> after it (\<open>Absent\<close> for
  \<^verbatim>\<open>null\<close>).\<close>

definition tryPreferred :: "task \<Rightarrow> int \<Rightarrow> task list \<Rightarrow> stop + field" where
  "tryPreferred task duration scheduled =
     (case preferredTime task of
        Absent \<Rightarrow> Inr Absent
      | Other \<Rightarrow> Inl TypeError
      | Text p \<Rightarrow>
          if p = [] then Inr Absent
          else
            bindE (startMinutesOf p) (\<lambda>pStart.
              (let pEnd = num_add pStart (Some duration)
               in bindE (someOverlap pStart pEnd scheduled) (\<lambda>hit.
                    if \<not> hit \<and> num_ge pStart (Some workStartMins) \<and> num_le pEnd (Some workEndMins)
                    then Inr (Text p) else Inr Absent))))"

text \<open>Strategy B, the gap search:
  \<^verbatim>\<open>for (let time = workStartMins; time <= workEndMins - duration; time += 15)\<close>.\<close>

function findSlot :: "int \<Rightarrow> int \<Rightarrow> task list \<Rightarrow> stop + field" where
  "findSlot time duration scheduled =
     (if time \<le> workEndMins - duration then
        (case someOverlap (Some time) (Some (time + duration)) scheduled of
           Inl e \<Rightarrow> Inl e
         | Inr hit \<Rightarrow>
             if \<not> hit then Inr (Text (timeString time))
             else findSlot (time + 15) duration scheduled)
      else Inr Absent)"
  by pat_completeness auto
termination
  by (relation "measure (\<lambda>(time, duration, scheduled). nat (workEndMins - duration - time + 1))") auto

declare findSlot.simps [simp del]

text \<open>The state of one run: the local array \<^verbatim>\<open>scheduled\<close>, the stored tasks and
  \<^verbatim>\<open>scheduledCount\<close>.\<close>

type_synonym run = "task list \<times> task list \<times> nat"

text \<open>The body of \<^verbatim>\<open>sortedUnscheduled.forEach\<close>.\<close>

definition scheduleOne :: "run \<Rightarrow> task \<Rightarrow> stop + run" where
  "scheduleOne r task =
     (case r of (scheduled, stored, scheduledCount) \<Rightarrow>
        bindE (plannedMinutes task) (\<lambda>duration.
        bindE (tryPreferred task duration scheduled) (\<lambda>preferred.
        bindE (if \<not> truthy preferred then findSlot workStartMins duration scheduled
               else Inr preferred) (\<lambda>scheduledTime.
          if truthy scheduledTime then
            (let stored' = updateTask (taskId task) (\<lambda>t. t\<lparr>plannedStartTime := scheduledTime\<rparr>) stored
             in bindE (sortByStart (scheduled @ [task\<lparr>plannedStartTime := scheduledTime\<rparr>]))
                  (\<lambda>scheduled'. Inr (scheduled', stored', scheduledCount + 1)))
          else Inr r))))"

fun forEachTask :: "task list \<Rightarrow> run \<Rightarrow> stop + run" where
  "forEachTask [] r = Inr r"
| "forEachTask (task # rest) r =
     (case scheduleOne r task of Inl e \<Rightarrow> Inl e | Inr r' \<Rightarrow> forEachTask rest r')"

text \<open>\<^verbatim>\<open>PlannerController.autoScheduleTasks()\<close>: the stored tasks afterwards and the toast.\<close>

definition autoScheduleTasks :: "task list \<Rightarrow> stop + (task list \<times> toast)" where
  "autoScheduleTasks tasks =
     (if unscheduledOf tasks = [] then Inr (tasks, NoUnscheduledTasks)
      else
        bindE (sortedUnscheduled tasks) (\<lambda>todo.
        bindE (sortByStart (activeScheduledOf tasks)) (\<lambda>scheduled.
        bindE (forEachTask todo (scheduled, tasks, 0)) (\<lambda>r.
          (case r of (_, stored, scheduledCount) \<Rightarrow>
             Inr (stored, if scheduledCount > 0 then AutoScheduled scheduledCount
                          else NoEmptySlots))))))"

subsection \<open>Quick-schedule, drop and resize\<close>

text \<open>\<^verbatim>\<open>PlannerController.quickScheduleTask(taskId, timeString)\<close>.\<close>

definition quickScheduleTask ::
    "string \<Rightarrow> string \<Rightarrow> task list \<Rightarrow> stop + (task list \<times> toast option)" where
  "quickScheduleTask tid time tasks =
     (case find (\<lambda>t. taskId t = tid) tasks of
        None \<Rightarrow> Inr (tasks, None)
      | Some task \<Rightarrow>
          bindE (hoursMinutes time) (\<lambda>hm.
            (let hours = fst hm
             in if num_lt hours (Some startHour) \<or> num_ge hours (Some endHour)
                then Inr (tasks, Some OutsideWorkingHours)
                else
                  bindE (plannedMinutes task) (\<lambda>duration.
                    (let myStart = toMinutes hm;
                         myEnd = num_add myStart (Some duration);
                         scheduled = filter (\<lambda>t. truthy (plannedStartTime t) \<and> \<not> completed t
                                                  \<and> taskId t \<noteq> tid) tasks
                     in bindE (someOverlap myStart myEnd scheduled) (\<lambda>hit.
                          if hit then Inr (tasks, Some SlotOccupied)
                          else Inr (updateTask tid (\<lambda>t. t\<lparr>plannedStartTime := Text time\<rparr>) tasks,
                                    Some Scheduled)))))))"

text \<open>\<^verbatim>\<open>PlannerController.handleDrop(e)\<close>: \<open>draggedTask\<close> is the task object taken at drag
  start, \<open>clientY\<close>, \<open>rectTop\<close> and \<open>scrollTop\<close> the pixel positions the handler reads,
  \<open>today\<close> the date \<^verbatim>\<open>new Date().toISOString().split('T')[0]\<close>.

  The pixel positions are doubles, computed with here as rationals. On the grid of the
  multiples of \<open>1/64\<close> pixel of magnitude at most \<open>2^30\<close> the doubles of the code compute
  exactly the values below: \<open>relativeY\<close> is a multiple of \<open>1/64\<close> that doubles hold exactly;
  the quotient \<open>totalMinutes / 15\<close> is \<open>relativeY / 15\<close> up to a relative error of three
  roundings (below \<open>2^-50\<close>); when \<open>relativeY / 15\<close> is half an odd integer,
  \<open>relativeY / 60\<close> is an odd multiple of \<open>1/8\<close> and every step is exact; otherwise it is at
  least \<open>1/960\<close> away from half an odd integer, so \<^verbatim>\<open>Math.round\<close> gives the same integer. Off
  the grid the sum \<open>relativeY\<close> can already be rounded and the handler stops with
  \<open>Inexact\<close>.\<close>

definition onGrid :: "rat \<Rightarrow> bool" where
  "onGrid x = (of_int \<lfloor>x * 64\<rfloor> = x * 64 \<and> \<bar>x\<bar> \<le> 2 ^ 30)"

definition snappedMinutes :: "rat \<Rightarrow> rat \<Rightarrow> rat \<Rightarrow> stop + int" where
  "snappedMinutes clientY rectTop scrollTop =
     (if onGrid clientY \<and> onGrid rectTop \<and> onGrid scrollTop then
        (let relativeY = clientY - rectTop + scrollTop - 16;
             hoursOffset = relativeY / of_int timeSlotHeight;
             totalMinutes = of_int (startHour * 60) + hoursOffset * 60
         in Inr (math_round (totalMinutes / 15) * 15))
      else Inl Inexact)"

definition dropUpdates :: "task \<Rightarrow> string \<Rightarrow> string \<Rightarrow> task \<Rightarrow> task" where
  "dropUpdates draggedTask time today t =
     (let u = t\<lparr>plannedStartTime := Text time,
                plannedDuration := Some (durationOf draggedTask)\<rparr>
      in if \<not> truthy (dueDate draggedTask) then u\<lparr>dueDate := Text today\<rparr> else u)"

definition handleDrop ::
    "task option \<Rightarrow> rat \<Rightarrow> rat \<Rightarrow> rat \<Rightarrow> string \<Rightarrow> task list
      \<Rightarrow> stop + (task list \<times> toast option)" where
  "handleDrop dragged clientY rectTop scrollTop today tasks =
     (case dragged of
        None \<Rightarrow> Inr (tasks, None)
      | Some draggedTask \<Rightarrow>
          bindE (snappedMinutes clientY rectTop scrollTop) (\<lambda>snapped.
            (let hour = snapped div 60;
                 minute = js_rem snapped 60
             in if hour < startHour \<or> hour \<ge> endHour then Inr (tasks, None)
                else Inr (updateTask (taskId draggedTask)
                            (dropUpdates draggedTask (timeString snapped) today) tasks,
                          Some (ScheduledFor hour minute)))))"

text \<open>\<^verbatim>\<open>PlannerController.handleResizeEnd()\<close>: \<open>resizingTask\<close> is the task grabbed at resize
  start, \<open>offsetHeight\<close> the pixel height of its element (\<open>None\<close> when the element is not
  on the timeline). \<^verbatim>\<open>offsetHeight\<close> is an integer of 32 bits; there \<open>height / 15\<close> is at
  least \<open>1/30\<close> away from half an odd integer and the doubles round as the rationals do.\<close>

definition resizedDuration :: "int \<Rightarrow> stop + int" where
  "resizedDuration height =
     (if \<bar>height\<bar> < 2 ^ 31 then
        (let raw = (of_int height / of_int timeSlotHeight) * 60;
             durationMins = math_round (raw / 15) * 15
         in Inr (if durationMins < 15 then 15 else durationMins))
      else Inl Inexact)"

definition handleResizeEnd ::
    "task option \<Rightarrow> int option \<Rightarrow> task list \<Rightarrow> stop + (task list \<times> toast option)" where
  "handleResizeEnd resizingTask offsetHeight tasks =
     (case resizingTask of
        None \<Rightarrow> Inr (tasks, None)
      | Some r \<Rightarrow>
          (case offsetHeight of
             None \<Rightarrow> Inr (tasks, None)
           | Some height \<Rightarrow>
               bindE (resizedDuration height) (\<lambda>durationMins.
                 Inr (updateTask (taskId r) (\<lambda>t. t\<lparr>plannedDuration := Some durationMins\<rparr>) tasks,
                      Some (DurationUpdated durationMins)))))"

subsection \<open>The task form\<close>

text \<open>The fields \<^verbatim>\<open>UIController.handleTaskSubmit\<close> reads from the form.\<close>

record taskForm =
  f_taskId :: string
  f_title :: string
  f_description :: string
  f_priority :: string
  f_category :: string
  f_due :: string
  f_preferredTime :: string
  f_durationHours :: string
  f_durationMinutes :: string
  f_color :: string
  f_subtasks :: "(string \<times> bool) list"

definition formPriority :: "string \<Rightarrow> priority" where
  "formPriority v = (if v = ''low'' then Low else if v = ''high'' then High else Medium)"

text \<open>\<^verbatim>\<open>parseInt(v) || 0\<close>.\<close>

definition orZeroNum :: "jsnum \<Rightarrow> int" where
  "orZeroNum v = (case v of None \<Rightarrow> 0 | Some n \<Rightarrow> n)"

definition formDuration :: "taskForm \<Rightarrow> stop + int" where
  "formDuration f =
     bindE (parseInt (f_durationHours f)) (\<lambda>h.
     bindE (parseInt (f_durationMinutes f)) (\<lambda>m.
       (let hours = orZeroNum h;
            minutes = orZeroNum m;
            duration = hours * 60 + minutes
        in Inr (if duration < 15 then 15 else duration))))"

definition textOrNull :: "string \<Rightarrow> field" where
  "textOrNull v = (if v \<noteq> [] then Text v else Absent)"

definition formData :: "taskForm \<Rightarrow> int \<Rightarrow> taskData" where
  "formData f duration =
     \<lparr> td_title = trim (f_title f),
       td_description = f_description f,
       td_priority = formPriority (f_priority f),
       td_categoryId = textOrNull (f_category f),
       td_dueDate = textOrNull (f_due f),
       td_preferredTime = textOrNull (f_preferredTime f),
       td_plannedDuration = Some duration,
       td_color = f_color f,
       td_subtasks = filter (\<lambda>st. trim (fst st) \<noteq> []) (f_subtasks f) \<rparr>"

definition handleTaskSubmit ::
    "string \<Rightarrow> string \<Rightarrow> taskForm \<Rightarrow> task list \<Rightarrow> stop + (task list \<times> toast)" where
  "handleTaskSubmit newId now f tasks =
     (if trim (f_title f) = [] then Inr (tasks, TitleRequired)
      else
        bindE (formDuration f) (\<lambda>duration.
          if f_taskId f \<noteq> []
          then Inr (updateTask (f_taskId f) (applyTaskData (formData f duration)) tasks, TaskUpdated)
          else Inr (createTask newId now (formData f duration) tasks, TaskCreated)))"

section \<open>Example tasks\<close>

text \<open>A task with the given id, priority, due date, preferred time, start time, duration
  and completion flag, used to run the definitions above on concrete task lists. A time
  field is given as \<open>Some\<close> string or \<open>None\<close>.\<close>

definition fieldOf :: "string option \<Rightarrow> field" where
  "fieldOf v = (case v of None \<Rightarrow> Absent | Some s \<Rightarrow> Text s)"

definition mkTask ::
    "string \<Rightarrow> priority \<Rightarrow> string option \<Rightarrow> string option \<Rightarrow> string option
      \<Rightarrow> int option \<Rightarrow> bool \<Rightarrow> task" where
  "mkTask i p due pref start dur done =
     \<lparr> taskId = i, title = ''task'', description = [], priority = p, categoryId = Absent,
       dueDate = fieldOf due, preferredTime = fieldOf pref, plannedStartTime = fieldOf start,
       plannedDuration = dur, color = ''#6366f1'', subtasks = [], completed = done,
       createdAt = [], order = 0 \<rparr>"

text \<open>A filled-in task form with the given task id (empty for a new task) and duration
  fields.\<close>

definition exForm :: "string \<Rightarrow> string \<Rightarrow> string \<Rightarrow> taskForm" where
  "exForm i h m = \<lparr> f_taskId = i, f_title = ''Write report'', f_description = [], f_priority = ''high'',
     f_category = [], f_due = [], f_preferredTime = [], f_durationHours = h, f_durationMinutes = m,
     f_color = ''#6366f1'', f_subtasks = [] \<rparr>"

section \<open>The placement order in the words of the specification\<close>

text \<open>The rank of a task's priority: \<^verbatim>\<open>high = 3\<close>, \<^verbatim>\<open>medium = 2\<close>, \<^verbatim>\<open>low = 1\<close>, anything else
  \<^verbatim>\<open>0\<close>.\<close>

definition rankOf :: "task \<Rightarrow> int" where
  "rankOf t = (case priority t of High \<Rightarrow> 3 | Medium \<Rightarrow> 2 | Low \<Rightarrow> 1 | _ \<Rightarrow> 0)"

text \<open>\<open>a\<close> may stand before \<open>b\<close>: its rank is higher, or the ranks are equal and it is
  not shorter.\<close>

definition goesFirst :: "task \<Rightarrow> task \<Rightarrow> bool" where
  "goesFirst a b = (rankOf a > rankOf b \<or> (rankOf a = rankOf b \<and> durationOf a \<ge> durationOf b))"

section \<open>Intervals of tasks\<close>

text \<open>The start and the end of a task's interval in minutes since midnight, as
  \<open>intervalOf\<close> computes them; \<^verbatim>\<open>NaN\<close> also where \<open>intervalOf\<close> has no result.\<close>

definition startOf :: "task \<Rightarrow> jsnum" where
  "startOf s = (case intervalOf s of Inl e \<Rightarrow> None | Inr iv \<Rightarrow> fst iv)"

definition endOf :: "task \<Rightarrow> jsnum" where
  "endOf s = (case intervalOf s of Inl e \<Rightarrow> None | Inr iv \<Rightarrow> snd iv)"

text \<open>The task \<open>s\<close> overlaps the interval from \<open>a\<close> to \<open>b\<close>.\<close>

definition occupies :: "task \<Rightarrow> jsnum \<Rightarrow> jsnum \<Rightarrow> bool" where
  "occupies s a b = overlaps a b (startOf s) (endOf s)"

text \<open>The conversions behind the interval of \<open>s\<close> are exact: \<open>intervalOf\<close> has a result.\<close>

definition exactInterval :: "task \<Rightarrow> bool" where
  "exactInterval s = (case intervalOf s of Inl e \<Rightarrow> False | Inr iv \<Rightarrow> True)"

text \<open>An hour outside \<open>[startHour, endHour)\<close>; \<^verbatim>\<open>NaN\<close> is not outside.\<close>

definition outsideHours :: "jsnum \<Rightarrow> bool" where
  "outsideHours h = (case h of None \<Rightarrow> False | Some x \<Rightarrow> x < startHour \<or> endHour \<le> x)"

text \<open>The scheduled tasks that are not completed and are not the task \<open>tid\<close> itself, and
  whether one of them overlaps the interval from \<open>a\<close> to \<open>b\<close>.\<close>

definition othersOf :: "string \<Rightarrow> task list \<Rightarrow> task list" where
  "othersOf tid tasks =
     filter (\<lambda>s. truthy (plannedStartTime s) \<and> \<not> completed s \<and> taskId s \<noteq> tid) tasks"

definition slotOccupied :: "string \<Rightarrow> jsnum \<Rightarrow> jsnum \<Rightarrow> task list \<Rightarrow> bool" where
  "slotOccupied tid a b tasks = list_ex (\<lambda>s. occupies s a b) (othersOf tid tasks)"

text \<open>The minutes since midnight under a drop position, before snapping.\<close>

definition rawDropMinutes :: "rat \<Rightarrow> rat \<Rightarrow> rat \<Rightarrow> rat" where
  "rawDropMinutes clientY rectTop scrollTop =
     of_int (startHour * 60) + ((clientY - rectTop + scrollTop - 16) / of_int timeSlotHeight) * 60"

section \<open>Auto-schedule in the words of the specification\<close>

text \<open>The interval from \<open>a\<close> to \<open>b\<close> lies inside the working window \<open>[08:00, 20:00)\<close>.\<close>

definition insideWorkWindow :: "jsnum \<Rightarrow> jsnum \<Rightarrow> bool" where
  "insideWorkWindow a b =
     (case a of None \<Rightarrow> False
      | Some x \<Rightarrow> (case b of None \<Rightarrow> False | Some y \<Rightarrow> workStartMins \<le> x \<and> y \<le> workEndMins))"

text \<open>No task of the committed set overlaps the interval from \<open>a\<close> to \<open>b\<close>.\<close>

definition slotFree :: "task list \<Rightarrow> jsnum \<Rightarrow> jsnum \<Rightarrow> bool" where
  "slotFree committed a b = (\<not> list_ex (\<lambda>s. occupies s a b) committed)"

text \<open>The starts \<open>lo\<close>, \<open>lo + 15\<close>, \<dots> up to \<open>hi\<close> inclusive, and the candidate starts
  of a task of the given duration: from 08:00 to 20:00 minus the duration.\<close>

definition startsFrom :: "int \<Rightarrow> int \<Rightarrow> int list" where
  "startsFrom lo hi = map (\<lambda>k. lo + 15 * int k) [0 ..< nat ((hi - lo) div 15 + 1)]"

definition candidateStarts :: "int \<Rightarrow> int list" where
  "candidateStarts duration = startsFrom workStartMins (workEndMins - duration)"

text \<open>The minute a time string stands for, \<^verbatim>\<open>NaN\<close> also where the conversion has no
  result.\<close>

definition minuteOf :: "string \<Rightarrow> jsnum" where
  "minuteOf p = (case startMinutesOf p of Inl e \<Rightarrow> None | Inr v \<Rightarrow> v)"

text \<open>The task has a preferred time whose interval lies inside the working window and
  overlaps nothing committed.\<close>

definition preferredFits :: "task \<Rightarrow> task list \<Rightarrow> bool" where
  "preferredFits task committed =
     (case preferredTime task of
        Absent \<Rightarrow> False
      | Other \<Rightarrow> False
      | Text p \<Rightarrow>
          p \<noteq> [] \<and> insideWorkWindow (minuteOf p) (num_add (minuteOf p) (Some (durationOf task)))
          \<and> slotFree committed (minuteOf p) (num_add (minuteOf p) (Some (durationOf task))))"

definition firstFreeStart :: "int \<Rightarrow> task list \<Rightarrow> int option" where
  "firstFreeStart duration committed =
     find (\<lambda>t. slotFree committed (Some t) (Some (t + duration))) (candidateStarts duration)"

text \<open>Where one task is placed against the committed set: at its preferred time when that
  fits, otherwise at the first free candidate start, otherwise nowhere (\<open>Absent\<close>).\<close>

definition placement :: "task \<Rightarrow> task list \<Rightarrow> field" where
  "placement task committed =
     (if preferredFits task committed then preferredTime task
      else (case firstFreeStart (durationOf task) committed of
              None \<Rightarrow> Absent
            | Some t \<Rightarrow> Text (timeString t)))"

text \<open>The tasks of the placement order are placed one after the other; a placed task joins
  the committed set before the next one is looked at, and its start time is stored.\<close>

fun placeAll :: "task list \<Rightarrow> task list \<Rightarrow> task list \<Rightarrow> task list" where
  "placeAll [] committed stored = stored"
| "placeAll (task # rest) committed stored =
     (if truthy (placement task committed) then
        placeAll rest (task\<lparr>plannedStartTime := placement task committed\<rparr> # committed)
          (updateTask (taskId task) (\<lambda>t. t\<lparr>plannedStartTime := placement task committed\<rparr>) stored)
      else placeAll rest committed stored)"

text \<open>The tasks on which every conversion and every sum of a run of auto-schedule is
  exact and every sort has a consistent comparator: the time fields are strings when
  set, their parts convert to \<^verbatim>\<open>NaN\<close> or to integers of magnitude at most \<open>2^40\<close>, the duration
  is at most \<open>2^30\<close> in magnitude, and the priority does not name an inherited member of
  the rank table.\<close>

definition exactTime :: "string \<Rightarrow> bool" where
  "exactTime s = (\<not> isl (startMinutesOf s) \<and> \<not> isl (parseInt (replace_colon s)))"

definition exactField :: "field \<Rightarrow> bool" where
  "exactField v = (case v of Absent \<Rightarrow> True | Text s \<Rightarrow> exactTime s | Other \<Rightarrow> False)"

definition exactTask :: "task \<Rightarrow> bool" where
  "exactTask t =
     (exactField (preferredTime t) \<and> exactField (plannedStartTime t) \<and> exactDuration t \<and> ranked t)"

section \<open>The day's schedule\<close>

text \<open>\<^verbatim>\<open>PlannerController.renderTasks\<close> shows the tasks relevant to today,
  \<^verbatim>\<open>t.dueDate === today || !t.dueDate\<close>, and lists as unscheduled those of them that are
  not completed and have no start time.\<close>

definition relevantToday :: "string \<Rightarrow> task \<Rightarrow> bool" where
  "relevantToday today t = (dueDate t = Text today \<or> \<not> truthy (dueDate t))"

definition plannerUnscheduled :: "string \<Rightarrow> task list \<Rightarrow> task list" where
  "plannerUnscheduled today tasks =
     filter (\<lambda>t. relevantToday today t \<and> \<not> completed t \<and> \<not> truthy (plannedStartTime t)) tasks"

text \<open>An active task scheduled for today, and the overlap of the intervals of two tasks.\<close>

definition activeToday :: "string \<Rightarrow> task \<Rightarrow> bool" where
  "activeToday today t = (relevantToday today t \<and> \<not> completed t \<and> truthy (plannedStartTime t))"

definition tasksOverlap :: "task \<Rightarrow> task \<Rightarrow> bool" where
  "tasksOverlap a b = overlaps (startOf a) (endOf a) (startOf b) (endOf b)"

text \<open>No task of the list overlaps a later one; the test is symmetric, so no two tasks at
  different positions overlap.\<close>

fun pairwiseFree :: "task list \<Rightarrow> bool" where
  "pairwiseFree [] = True"
| "pairwiseFree (t # ts) = (\<not> list_ex (tasksOverlap t) ts \<and> pairwiseFree ts)"

definition nonOverlapping :: "string \<Rightarrow> task list \<Rightarrow> bool" where
  "nonOverlapping today tasks = pairwiseFree (filter (activeToday today) tasks)"

text \<open>The start time of a scheduled task reads as a number of minutes.\<close>

definition numericStart :: "task \<Rightarrow> bool" where
  "numericStart s = (startOf s \<noteq> None)"

section \<open>The overlap test\<close>

lemma overlaps_sym: "overlaps a1 a2 b1 b2 = overlaps b1 b2 a1 a2"
  by (auto simp: overlaps_def num_gt_def)

text \<open>
  Claim C5. On intervals \<open>[aStart, aEnd)\<close> and \<open>[bStart, bEnd)\<close> of numbers the overlap
  test of the engine is \<open>aStart < bEnd \<and> aEnd > bStart\<close>; it is symmetric (also when a
  bound is \<^verbatim>\<open>NaN\<close>); an interval that ends at minute 600 does not overlap one that
  starts at minute 600; and the \<^verbatim>\<open>some\<close> callback of the scheduling paths applies this
  test to the interval of the scheduled task.
\<close>

theorem overlaps_half_open:
  "overlaps (Some aStart) (Some aEnd) (Some bStart) (Some bEnd) = (aStart < bEnd \<and> aEnd > bStart)
   \<and> overlaps a1 a2 b1 b2 = overlaps b1 b2 a1 a2
   \<and> \<not> overlaps a1 (Some 600) (Some 600) b2
   \<and> (intervalOf s = Inr (sStart, sEnd) \<longrightarrow>
        someOverlap myStart myEnd [s] = Inr (overlaps myStart myEnd sStart sEnd))"
proof -
  have "overlaps (Some aStart) (Some aEnd) (Some bStart) (Some bEnd) = (aStart < bEnd \<and> aEnd > bStart)"
    by (simp add: overlaps_def num_gt_def)
  moreover have "overlaps a1 a2 b1 b2 = overlaps b1 b2 a1 a2"
    by (rule overlaps_sym)
  moreover have "\<not> overlaps a1 (Some 600) (Some 600) b2"
    by (simp add: overlaps_def num_gt_def)
  moreover have "intervalOf s = Inr (sStart, sEnd) \<longrightarrow>
        someOverlap myStart myEnd [s] = Inr (overlaps myStart myEnd sStart sEnd)"
    by simp
  ultimately show ?thesis by blast
qed

theorem overlaps_half_open_witness:
  "overlaps (Some 540) (Some 600) (Some 570) (Some 630)
   \<and> \<not> overlaps (Some 540) (Some 600) (Some 600) (Some 630)
   \<and> someOverlap (Some 540) (Some 600)
        [mkTask ''a'' High None None (Some ''09:30'') (Some 60) False] = Inr True"
proof -
  let ?s = "mkTask ''a'' High None None (Some ''09:30'') (Some 60) False"
  have iv: "intervalOf ?s = Inr (Some 570, Some 630)"
    by code_simp
  have a: "overlaps (Some 540) (Some 600) (Some 570) (Some 630)"
    using overlaps_half_open [of 540 600 570 630] by simp
  have b: "\<not> overlaps (Some 540) (Some 600) (Some 600) (Some 630)"
    using overlaps_half_open [of _ _ _ _ "Some 540" _ _ "Some 630"] by blast
  have c: "someOverlap (Some 540) (Some 600) [?s] = Inr (overlaps (Some 540) (Some 600) (Some 570) (Some 630))"
    using overlaps_half_open [of _ _ _ _ _ _ _ _ ?s "Some 570" "Some 630" "Some 540" "Some 600"] iv
    by blast
  from a b c show ?thesis by simp
qed

section \<open>Updates of the task store\<close>

lemma findIndex_Some:
  "findIndex P xs = Some i \<Longrightarrow> i < length xs \<and> P (xs ! i) \<and> (\<forall>j<i. \<not> P (xs ! j))"
proof (induction xs arbitrary: i)
  case Nil
  then show ?case by simp
next
  case (Cons x xs)
  show ?case
  proof (cases "P x")
    case True
    with Cons.prems show ?thesis by simp
  next
    case False
    with Cons.prems obtain k where k: "findIndex P xs = Some k" "i = Suc k"
      by auto
    from Cons.IH [OF k(1)] False k(2) show ?thesis
      by (auto simp: less_Suc_eq_0_disj)
  qed
qed

lemma findIndex_None: "findIndex P xs = None \<Longrightarrow> \<forall>x\<in>set xs. \<not> P x"
  by (induction xs) (auto split: if_splits)

lemma length_updateTask [simp]: "length (updateTask tid u tasks) = length tasks"
  by (simp add: updateTask_def split: option.splits)

lemma updateTask_nth:
  "findIndex (\<lambda>t. taskId t = tid) tasks = Some i \<Longrightarrow> updateTask tid u tasks ! i = u (tasks ! i)"
  by (simp add: updateTask_def findIndex_Some)

lemma updateTask_nth_other:
  "findIndex (\<lambda>t. taskId t = tid) tasks = Some i \<Longrightarrow> j \<noteq> i \<Longrightarrow> updateTask tid u tasks ! j = tasks ! j"
  by (simp add: updateTask_def)

lemma updateTask_absent:
  "findIndex (\<lambda>t. taskId t = tid) tasks = None \<Longrightarrow> updateTask tid u tasks = tasks"
  by (simp add: updateTask_def)

lemma find_findIndex:
  "findIndex P xs = Some i \<Longrightarrow> find P xs = Some (xs ! i)"
  by (induction xs arbitrary: i) (auto split: if_splits)



section \<open>The steps of a run of auto-schedule\<close>








section \<open>What auto-schedule leaves alone\<close>








section \<open>The tasks auto-schedule takes\<close>

lemma plannerUnscheduled_subset:
  "set (plannerUnscheduled today tasks) \<subseteq> set (unscheduledOf tasks)"
  by (auto simp: plannerUnscheduled_def unscheduledOf_def)

text \<open>
  Claim C4. The planner lists as unscheduled the tasks relevant to today that are not
  completed and have no start time, and the claim is that auto-schedule places these and
  no others. \<^verbatim>\<open>autoScheduleTasks\<close> filters on completion and start time only: a task due on
  another day, which the planner does not list today, is given the start time \<^verbatim>\<open>08:00\<close>.
\<close>

theorem autoSchedule_places_other_day:
  "autoScheduleTasks [mkTask ''x'' Medium (Some ''2026-11-10'') None None (Some 30) False]
     = Inr ([mkTask ''x'' Medium (Some ''2026-11-10'') None (Some ''08:00'') (Some 30) False],
            AutoScheduled 1)
   \<and> plannerUnscheduled ''2026-11-03''
       [mkTask ''x'' Medium (Some ''2026-11-10'') None None (Some 30) False] = []
   \<and> unscheduledOf [mkTask ''x'' Medium (Some ''2026-11-10'') None None (Some 30) False]
       = [mkTask ''x'' Medium (Some ''2026-11-10'') None None (Some 30) False]"
  by code_simp

end
